theory Spec2Isabelle
  imports Main
begin

section \<open>Session persistence manager (src/session/manager.ts)\<close>

text \<open>
  The module keeps the checkpoints of a cycle in one table of a keyed store and reaches
  it through a document client: every call is \<^verbatim>\<open>docClient.send(new XCommand(...))\<close>.
  The embedding has three layers: the values of the host language (objects whose
  properties are read by name), the table behind the client, and the seven exported
  functions, each taking the time \<^verbatim>\<open>Date.now()\<close> returns and the backend, and
  returning what it returns or throws together with the backend afterwards.
\<close>

subsection \<open>Values\<close>

text \<open>
  Modelled from the spec: the enum \<^verbatim>\<open>SessionStatus\<close> is declared in
  \<^verbatim>\<open>types.ts\<close>, which is not among the sources; its members are the five states
  the specification lists. The module itself names only \<^verbatim>\<open>Status.RUNNING\<close>.
\<close>

datatype SessionStatus = PENDING | RUNNING | COMPLETED | FAILED | CANCELLED

text \<open>
  A value of the host language, as far as the module handles one: \<^verbatim>\<open>undefined\<close>,
  a number (the module's numbers are integral: milliseconds and epoch seconds), a
  string, a member of the status enum, or an object, kept as the list of its own
  properties in insertion order.
\<close>

datatype jsval =
    JUndefined
  | JNum int
  | JStr string
  | JStatus SessionStatus
  | JObj "(string \<times> jsval) list"

type_synonym item = "(string \<times> jsval) list"

text \<open>The result of an arithmetic expression: a number or \<^verbatim>\<open>NaN\<close>.\<close>

datatype jsnum = Num int | NaN

text \<open>An exception object, with the two properties the module's handler looks at.\<close>

datatype js_error = JsError (err_name: string) (err_code: "string option")

text \<open>Reading a property of \<^verbatim>\<open>undefined\<close> throws this.\<close>

definition TypeError :: js_error where
  "TypeError = JsError ''TypeError'' None"

text \<open>
  The exception the imported client throws when the condition of a conditional write
  does not hold. The module imports the modular client packages
  (\<^verbatim>\<open>@aws-sdk/client-dynamodb\<close>, \<^verbatim>\<open>@aws-sdk/lib-dynamodb\<close>); their service
  exceptions carry the identifier in the property \<^verbatim>\<open>name\<close> and have no property
  \<^verbatim>\<open>code\<close>.
\<close>

definition ConditionalCheckFailedException :: js_error where
  "ConditionalCheckFailedException = JsError ''ConditionalCheckFailedException'' None"

text \<open>
  The exception for a request the backend refuses as invalid: a key that is not a
  non-empty string of at most 2048 bytes (the key schema of \<^verbatim>\<open>initializeTable\<close>
  declares \<^verbatim>\<open>sessionId\<close> a string), or an expression value that is bound and that no
  expression of the request mentions.
\<close>

definition ValidationException :: js_error where
  "ValidationException = JsError ''ValidationException'' None"

text \<open>\<^verbatim>\<open>{...obj, k: v}\<close> and \<^verbatim>\<open>obj[k] = v\<close>: an own property keeps its place, a new one
  goes last.\<close>

primrec js_set :: "string \<Rightarrow> jsval \<Rightarrow> item \<Rightarrow> item" where
  "js_set k v [] = [(k, v)]"
| "js_set k v (p # ps) = (if fst p = k then (k, v) # ps else p # js_set k v ps)"

text \<open>\<^verbatim>\<open>item.k\<close> on an object: the property, or \<^verbatim>\<open>undefined\<close> when there is none.\<close>

definition item_get :: "item \<Rightarrow> string \<Rightarrow> jsval" where
  "item_get it k = (case map_of it k of None \<Rightarrow> JUndefined | Some v \<Rightarrow> v)"

text \<open>
  \<^verbatim>\<open>v.k\<close> on any value: \<^verbatim>\<open>undefined.k\<close> throws a TypeError; a number, a string or an
  enum member has none of the property names the module reads.
\<close>

fun js_get :: "jsval \<Rightarrow> string \<Rightarrow> js_error + jsval" where
  "js_get JUndefined k = Inl TypeError"
| "js_get (JObj ps) k = Inr (item_get ps k)"
| "js_get (JNum n) k = Inr JUndefined"
| "js_get (JStr s) k = Inr JUndefined"
| "js_get (JStatus s) k = Inr JUndefined"

text \<open>Truthiness, as \<^verbatim>\<open>if (v)\<close> and \<^verbatim>\<open>!v\<close> test it.\<close>

fun js_truthy :: "jsval \<Rightarrow> bool" where
  "js_truthy JUndefined = False"
| "js_truthy (JNum n) = (n \<noteq> 0)"
| "js_truthy (JStr s) = (s \<noteq> [])"
| "js_truthy (JStatus s) = True"
| "js_truthy (JObj ps) = True"

text \<open>An optional string field: absent and the empty string are both falsy.\<close>

fun truthy :: "string option \<Rightarrow> bool" where
  "truthy None = False"
| "truthy (Some s) = (s \<noteq> [])"

fun str_value :: "string option \<Rightarrow> jsval" where
  "str_value None = JUndefined"
| "str_value (Some s) = JStr s"

text \<open>
  \<^verbatim>\<open>now - v\<close> and \<^verbatim>\<open>now > v * 1000\<close> for the fields \<^verbatim>\<open>SessionMetadata\<close> types as
  numbers: a number computes, a missing field (\<^verbatim>\<open>undefined\<close>) gives \<^verbatim>\<open>NaN\<close>, and a
  comparison with \<^verbatim>\<open>NaN\<close> is false. Values of other types do not occur in these
  fields and are taken to give \<^verbatim>\<open>NaN\<close> as well.
\<close>

fun js_minus :: "int \<Rightarrow> jsval \<Rightarrow> jsnum" where
  "js_minus a (JNum b) = Num (a - b)"
| "js_minus a v = NaN"

fun js_times :: "jsval \<Rightarrow> int \<Rightarrow> jsnum" where
  "js_times (JNum a) b = Num (a * b)"
| "js_times v b = NaN"

fun js_gt :: "int \<Rightarrow> jsnum \<Rightarrow> bool" where
  "js_gt a (Num b) = (a > b)"
| "js_gt a NaN = False"

subsection \<open>The table behind the document client\<close>

datatype index = UserIndex | GuildIndex

text \<open>The hash key of each secondary index, as \<^verbatim>\<open>initializeTable\<close> declares it; the
  range key of both is \<^verbatim>\<open>status\<close>.\<close>

fun index_hash_key :: "index \<Rightarrow> string" where
  "index_hash_key UserIndex = ''userId''"
| "index_hash_key GuildIndex = ''guildId''"

text \<open>
  The commands the module sends. An update carries the key, the assignments of its
  \<^verbatim>\<open>SET\<close> expression and, for the conditional write, the attribute and the value its
  condition compares; its expressions mention every value it binds. A query carries the
  index, its key condition \<^verbatim>\<open>a = :x AND #status = :status\<close> as the list of the
  attributes and the placeholders compared with them, and its
  \<^verbatim>\<open>ExpressionAttributeValues\<close> as the list of the placeholders bound and their values.
  A scan carries the two values of its filter
  \<^verbatim>\<open>#status = :status AND expiresAt < :now\<close>, which are all it binds.
\<close>

datatype command =
    GetCommand string
  | PutCommand item
  | UpdateCommand string item "(string \<times> jsval) option"
  | QueryCommand index "(string \<times> string) list" "(string \<times> jsval) list"
  | DeleteCommand string
  | ScanCommand SessionStatus int

text \<open>
  The backend: the items of the table (each an object holding its key under
  \<^verbatim>\<open>sessionId\<close>), the commands sent so far, a failure of the backend itself
  (network, throttling) that, while present, every command throws, and the exception
  object its client throws for a conditional write whose condition does not hold.
\<close>

record backend =
  table :: "item list"
  issued :: "command list"
  outage :: "js_error option"
  rejection :: js_error

definition has_key :: "string \<Rightarrow> item \<Rightarrow> bool" where
  "has_key sid it = (map_of it ''sessionId'' = Some (JStr sid))"

definition logged :: "command \<Rightarrow> backend \<Rightarrow> backend" where
  "logged c b = b\<lparr>issued := issued b @ [c]\<rparr>"

text \<open>A key the table accepts: a non-empty string of at most 2048 bytes. A request whose
  key is not one is refused.\<close>

definition valid_key :: "string \<Rightarrow> bool" where
  "valid_key sid = (sid \<noteq> [] \<and> length sid \<le> 2048)"

text \<open>
  One answer to a scan or a query is one page: the backend reads items in its order
  while what it has read stays within 1 MB, and stops there. The size of an item is the
  sum of the sizes of its attribute names and values: a string counts its bytes, a number
  at most 21 bytes, an enum member the bytes of its name, an object 3 bytes and, for
  each property, its name, its value and 1 byte.
\<close>

definition PAGE_BYTES :: nat where
  "PAGE_BYTES = 1048576"

fun status_bytes :: "SessionStatus \<Rightarrow> nat" where
  "status_bytes PENDING = 7"
| "status_bytes RUNNING = 7"
| "status_bytes COMPLETED = 9"
| "status_bytes FAILED = 6"
| "status_bytes CANCELLED = 9"

primrec value_bytes :: "jsval \<Rightarrow> nat" where
  "value_bytes JUndefined = 0"
| "value_bytes (JNum n) = 21"
| "value_bytes (JStr s) = length s"
| "value_bytes (JStatus st) = status_bytes st"
| "value_bytes (JObj ps) =
     3 + sum_list (map (\<lambda>p. length (fst p) + snd p + 1) (map (map_prod id value_bytes) ps))"

definition item_bytes :: "item \<Rightarrow> nat" where
  "item_bytes it = sum_list (map (\<lambda>p. length (fst p) + value_bytes (snd p)) it)"

fun take_page :: "nat \<Rightarrow> item list \<Rightarrow> item list" where
  "take_page room [] = []"
| "take_page room (it # its) =
     (if item_bytes it \<le> room then it # take_page (room - item_bytes it) its else [])"

text \<open>Get: the item stored under the key, if any.\<close>

definition ddb_get :: "string \<Rightarrow> backend \<Rightarrow> (js_error + item option) \<times> backend" where
  "ddb_get sid b =
     (case outage b of
        Some e \<Rightarrow> (Inl e, logged (GetCommand sid) b)
      | None \<Rightarrow>
          if valid_key sid
          then (Inr (find (has_key sid) (table b)), logged (GetCommand sid) b)
          else (Inl ValidationException, logged (GetCommand sid) b))"

text \<open>Put: the item replaces the one stored under its key. A property whose value is
  \<^verbatim>\<open>undefined\<close> is not an attribute and is not stored. An item without a key the table
  accepts is refused.\<close>

definition ddb_put :: "item \<Rightarrow> backend \<Rightarrow> (js_error + unit) \<times> backend" where
  "ddb_put it b =
     (case outage b of
        Some e \<Rightarrow> (Inl e, logged (PutCommand it) b)
      | None \<Rightarrow>
          (let attrs = filter (\<lambda>p. snd p \<noteq> JUndefined) it
           in if (case map_of attrs ''sessionId'' of
                    Some (JStr sid) \<Rightarrow> valid_key sid
                  | _ \<Rightarrow> False)
              then (Inr (),
                    (logged (PutCommand it) b)
                      \<lparr>table := filter (\<lambda>x. map_of x ''sessionId''
                                              \<noteq> map_of attrs ''sessionId'')
                                  (table b) @ [attrs]\<rparr>)
              else (Inl ValidationException, logged (PutCommand it) b)))"

text \<open>
  Update: when the condition holds of the stored item (an unconditional update has none;
  a missing item has no attribute to compare), the assignments are applied to the stored
  item, or to a new item holding only the key when there is none. Otherwise nothing is
  written and the client throws its exception for the failed condition. A key the table
  does not accept is refused before that.
\<close>

definition condition_holds :: "(string \<times> jsval) option \<Rightarrow> item option \<Rightarrow> bool" where
  "condition_holds cond current =
     (case cond of
        None \<Rightarrow> True
      | Some (k, v) \<Rightarrow> (case current of None \<Rightarrow> False | Some it \<Rightarrow> map_of it k = Some v))"

definition assign :: "item \<Rightarrow> item \<Rightarrow> item" where
  "assign sets it = fold (\<lambda>p acc. js_set (fst p) (snd p) acc) sets it"

definition ddb_update ::
  "string \<Rightarrow> item \<Rightarrow> (string \<times> jsval) option \<Rightarrow> backend \<Rightarrow> (js_error + unit) \<times> backend" where
  "ddb_update sid sets cond b =
     (let b1 = logged (UpdateCommand sid sets cond) b in
      case outage b of
        Some e \<Rightarrow> (Inl e, b1)
      | None \<Rightarrow>
          if \<not> valid_key sid then (Inl ValidationException, b1)
          else if condition_holds cond (find (has_key sid) (table b)) then
            (case find (has_key sid) (table b) of
               None \<Rightarrow>
                 (Inr (), b1\<lparr>table := table b @ [assign sets [(''sessionId'', JStr sid)]]\<rparr>)
             | Some old \<Rightarrow>
                 (Inr (), b1\<lparr>table := map (\<lambda>x. if has_key sid x then assign sets x else x)
                                        (table b)\<rparr>))
          else (Inl (rejection b), b1))"

text \<open>Delete: removes the item stored under the key; there need not be one. A key the
  table does not accept is refused.\<close>

definition ddb_delete :: "string \<Rightarrow> backend \<Rightarrow> (js_error + unit) \<times> backend" where
  "ddb_delete sid b =
     (case outage b of
        Some e \<Rightarrow> (Inl e, logged (DeleteCommand sid) b)
      | None \<Rightarrow>
          if valid_key sid
          then (Inr (), (logged (DeleteCommand sid) b)
                          \<lparr>table := filter (\<lambda>x. \<not> has_key sid x) (table b)\<rparr>)
          else (Inl ValidationException, logged (DeleteCommand sid) b))"

text \<open>
  Query. The backend validates the request first: it refuses one that binds a value no
  expression mentions, one that mentions a placeholder it does not bind, and one whose
  key condition leaves out the hash key of the index. A request that passes is answered
  with one page of the items whose attributes equal the values of the key condition.
\<close>

definition request_valid ::
  "index \<Rightarrow> (string \<times> string) list \<Rightarrow> (string \<times> jsval) list \<Rightarrow> bool" where
  "request_valid ix kc vals =
     (list_all (\<lambda>n. n \<in> set (map snd kc)) (map fst vals)
      \<and> list_all (\<lambda>ph. map_of vals ph \<noteq> None) (map snd kc)
      \<and> index_hash_key ix \<in> set (map fst kc))"

definition query_match :: "(string \<times> string) list \<Rightarrow> (string \<times> jsval) list \<Rightarrow> item \<Rightarrow> bool" where
  "query_match kc vals it =
     list_all (\<lambda>p. map_of vals (snd p) \<noteq> None \<and> map_of it (fst p) = map_of vals (snd p)) kc"

definition ddb_query ::
  "index \<Rightarrow> (string \<times> string) list \<Rightarrow> (string \<times> jsval) list \<Rightarrow> backend
    \<Rightarrow> (js_error + item list) \<times> backend" where
  "ddb_query ix kc vals b =
     (case outage b of
        Some e \<Rightarrow> (Inl e, logged (QueryCommand ix kc vals) b)
      | None \<Rightarrow>
          if request_valid ix kc vals
          then (Inr (take_page PAGE_BYTES (filter (query_match kc vals) (table b))),
                logged (QueryCommand ix kc vals) b)
          else (Inl ValidationException, logged (QueryCommand ix kc vals) b))"

text \<open>
  Scan: of the one page of the table the backend reads, the items the filter expression
  \<^verbatim>\<open>#status = :status AND expiresAt < :now\<close> accepts; an item without a numeric
  \<^verbatim>\<open>expiresAt\<close> is not accepted. Where the page ends before the table does, the answer
  also carries the key to go on from, which \<^verbatim>\<open>cleanupExpiredSessions\<close> does not read.
\<close>

definition scan_match :: "SessionStatus \<Rightarrow> int \<Rightarrow> item \<Rightarrow> bool" where
  "scan_match st now it =
     (map_of it ''status'' = Some (JStatus st)
      \<and> (case map_of it ''expiresAt'' of Some (JNum e) \<Rightarrow> e < now | _ \<Rightarrow> False))"

definition ddb_scan ::
  "SessionStatus \<Rightarrow> int \<Rightarrow> backend \<Rightarrow> (js_error + item list) \<times> backend" where
  "ddb_scan st now b =
     (case outage b of
        Some e \<Rightarrow> (Inl e, logged (ScanCommand st now) b)
      | None \<Rightarrow> (Inr (filter (scan_match st now) (take_page PAGE_BYTES (table b))),
                 logged (ScanCommand st now) b))"

subsection \<open>The exported functions\<close>

definition DEFAULT_TTL_SECONDS :: int where
  "DEFAULT_TTL_SECONDS = 60 * 60"

text \<open>
  The arguments of \<^verbatim>\<open>saveState\<close>. Their types are declared in \<^verbatim>\<open>types.ts\<close>; the
  fields are the ones the function reads. \<^verbatim>\<open>state.metadata\<close> is the object it spreads.
\<close>

record PersistedSessionState =
  metadata :: item
  thetaState :: jsval
  context_value :: jsval
  error :: jsval

record SaveStateOptions =
  ttl :: "int option"
  includeError :: bool

definition saveState ::
  "int \<Rightarrow> string \<Rightarrow> PersistedSessionState \<Rightarrow> SaveStateOptions \<Rightarrow> backend
    \<Rightarrow> (js_error + unit) \<times> backend" where
  "saveState now sessionId st options b =
     (let ttl_used = (case ttl options of None \<Rightarrow> DEFAULT_TTL_SECONDS | Some t \<Rightarrow> t);
          expiresAt = now div 1000 + ttl_used;
          md = js_set ''expiresAt'' (JNum expiresAt)
                 (js_set ''lastUpdateTime'' (JNum now)
                   (js_set ''sessionId'' (JStr sessionId) (metadata st)));
          it = js_set ''error'' (if includeError options then error st else JUndefined)
                 (js_set ''context'' (context_value st)
                   (js_set ''thetaState'' (thetaState st) md))
      in ddb_put it b)"

definition deleteSession :: "string \<Rightarrow> backend \<Rightarrow> (js_error + unit) \<times> backend" where
  "deleteSession sessionId b = ddb_delete sessionId b"

record RestoredSession =
  state :: item
  resumable :: bool
  elapsed :: jsnum

text \<open>
  \<^verbatim>\<open>restoreState\<close> takes the item the client returns for a
  \<^verbatim>\<open>PersistedSessionState\<close> and reads \<^verbatim>\<open>state.metadata.startTime\<close>,
  \<^verbatim>\<open>state.metadata.expiresAt\<close> and \<^verbatim>\<open>state.metadata.status\<close> from it, the first
  before the expiry check.
\<close>

definition restoreState ::
  "int \<Rightarrow> string \<Rightarrow> backend \<Rightarrow> (js_error + RestoredSession option) \<times> backend" where
  "restoreState now sessionId b =
     (case ddb_get sessionId b of
        (Inl e, b1) \<Rightarrow> (Inl e, b1)
      | (Inr None, b1) \<Rightarrow> (Inr None, b1)
      | (Inr (Some it), b1) \<Rightarrow>
          (case js_get (item_get it ''metadata'') ''startTime'' of
             Inl e \<Rightarrow> (Inl e, b1)
           | Inr startTime \<Rightarrow>
               (case js_get (item_get it ''metadata'') ''expiresAt'' of
                  Inl e \<Rightarrow> (Inl e, b1)
                | Inr expiresAt \<Rightarrow>
                    if js_gt now (js_times expiresAt 1000) then
                      (case deleteSession sessionId b1 of
                         (Inl e, b2) \<Rightarrow> (Inl e, b2)
                       | (Inr u, b2) \<Rightarrow> (Inr None, b2))
                    else
                      (case js_get (item_get it ''metadata'') ''status'' of
                         Inl e \<Rightarrow> (Inl e, b1)
                       | Inr s \<Rightarrow>
                           (Inr (Some \<lparr>state = it,
                                       resumable = (s = JStatus RUNNING),
                                       elapsed = js_minus now startTime\<rparr>), b1)))))"

record PendingSessionsFilter =
  userId :: "string option"
  guildId :: "string option"
  channelId :: "string option"
  status :: "SessionStatus option"

text \<open>\<^verbatim>\<open>items.filter((s) => s.metadata.channelId === filter.channelId)\<close>: the callback
  runs on each item in order and its exception ends the call.\<close>

fun filter_channel :: "jsval \<Rightarrow> item list \<Rightarrow> js_error + item list" where
  "filter_channel c [] = Inr []"
| "filter_channel c (s # ss) =
     (case js_get (item_get s ''metadata'') ''channelId'' of
        Inl e \<Rightarrow> Inl e
      | Inr v \<Rightarrow>
          (case filter_channel c ss of
             Inl e \<Rightarrow> Inl e
           | Inr r \<Rightarrow> Inr (if v = c then s # r else r)))"

definition getPendingSessions ::
  "int \<Rightarrow> PendingSessionsFilter \<Rightarrow> backend \<Rightarrow> (js_error + item list) \<times> backend" where
  "getPendingSessions nowMs flt b =
     (let now = nowMs div 1000 in
      if \<not> truthy (userId flt) \<and> \<not> truthy (guildId flt) then (Inr [], b)
      else
        (case status flt of
           Some st \<Rightarrow>
             (if truthy (userId flt) then
                ddb_query UserIndex [(''userId'', '':userId''), (''status'', '':status'')]
                  [('':status'', JStatus st), ('':now'', JNum now),
                   ('':userId'', str_value (userId flt))] b
              else
                ddb_query GuildIndex [(''guildId'', '':guildId''), (''status'', '':status'')]
                  [('':status'', JStatus st), ('':now'', JNum now),
                   ('':guildId'', str_value (guildId flt))] b)
         | None \<Rightarrow>
             (case (if truthy (userId flt) then
                      ddb_query UserIndex [(''userId'', '':userId''), (''status'', '':status'')]
                        [('':status'', JStatus RUNNING), ('':now'', JNum now),
                         ('':userId'', str_value (userId flt))] b
                    else
                      ddb_query GuildIndex
                        [(''guildId'', '':guildId''), (''status'', '':status'')]
                        [('':status'', JStatus RUNNING), ('':now'', JNum now),
                         ('':guildId'', str_value (guildId flt))] b) of
                (Inl e, b1) \<Rightarrow> (Inl e, b1)
              | (Inr items, b1) \<Rightarrow>
                  if truthy (channelId flt) then
                    (case filter_channel (str_value (channelId flt)) items of
                       Inl e \<Rightarrow> (Inl e, b1)
                     | Inr kept \<Rightarrow> (Inr kept, b1))
                  else (Inr items, b1))))"

definition updateStatus ::
  "int \<Rightarrow> string \<Rightarrow> SessionStatus \<Rightarrow> backend \<Rightarrow> (js_error + unit) \<times> backend" where
  "updateStatus now sessionId st b =
     ddb_update sessionId [(''status'', JStatus st), (''lastUpdateTime'', JNum now)] None b"

text \<open>The handler of \<^verbatim>\<open>updateStatusIf\<close>: it recognises the failed condition by the
  property \<^verbatim>\<open>code\<close> of what it caught and throws everything else again.\<close>

definition updateStatusIf ::
  "int \<Rightarrow> string \<Rightarrow> SessionStatus \<Rightarrow> SessionStatus \<Rightarrow> backend
    \<Rightarrow> (js_error + bool) \<times> backend" where
  "updateStatusIf now sessionId newStatus expectedCurrentStatus b =
     (case ddb_update sessionId
             [(''status'', JStatus newStatus), (''lastUpdateTime'', JNum now)]
             (Some (''status'', JStatus expectedCurrentStatus)) b of
        (Inr u, b1) \<Rightarrow> (Inr True, b1)
      | (Inl err, b1) \<Rightarrow>
          if err_code err = Some ''ConditionalCheckFailedException'' then (Inr False, b1)
          else (Inl err, b1))"

text \<open>The loop of \<^verbatim>\<open>cleanupExpiredSessions\<close> over the scanned items.\<close>

fun delete_each :: "item list \<Rightarrow> backend \<Rightarrow> (js_error + unit) \<times> backend" where
  "delete_each [] b = (Inr (), b)"
| "delete_each (it # its) b =
     (if js_truthy (item_get it ''sessionId'') then
        (case item_get it ''sessionId'' of
           JStr sid \<Rightarrow>
             (case deleteSession sid b of
                (Inl e, b1) \<Rightarrow> (Inl e, b1)
              | (Inr u, b1) \<Rightarrow> delete_each its b1)
         | other \<Rightarrow> (Inl ValidationException, b))
      else delete_each its b)"

definition cleanupExpiredSessions :: "int \<Rightarrow> backend \<Rightarrow> (js_error + nat) \<times> backend" where
  "cleanupExpiredSessions nowMs b =
     (case ddb_scan RUNNING (nowMs div 1000) b of
        (Inl e, b1) \<Rightarrow> (Inl e, b1)
      | (Inr expired, b1) \<Rightarrow>
          (case delete_each expired b1 of
             (Inl e, b2) \<Rightarrow> (Inl e, b2)
           | (Inr u, b2) \<Rightarrow> (Inr (length expired), b2)))"

subsection \<open>Vocabulary of the properties\<close>

text \<open>The key of an item of the table: a string the table accepts as a key, under
  \<^verbatim>\<open>sessionId\<close>.\<close>

definition key_of :: "item \<Rightarrow> string option" where
  "key_of it =
     (case map_of it ''sessionId'' of
        Some (JStr s) \<Rightarrow> (if valid_key s then Some s else None)
      | _ \<Rightarrow> None)"

text \<open>A table as the store keeps one: every item has a key and no two share one.\<close>

definition well_keyed :: "item list \<Rightarrow> bool" where
  "well_keyed t = (list_all (\<lambda>it. key_of it \<noteq> None) t \<and> distinct (map key_of t))"

text \<open>The record stored under a session id.\<close>

definition stored :: "backend \<Rightarrow> string \<Rightarrow> item option" where
  "stored b sid = find (has_key sid) (table b)"

text \<open>
  In the words of the specification: a record that is \<^verbatim>\<open>RUNNING\<close> and whose
  \<^verbatim>\<open>expiresAt\<close> is strictly less than the current time in epoch seconds.
\<close>

definition expired_running :: "int \<Rightarrow> item \<Rightarrow> bool" where
  "expired_running nowMs it =
     (item_get it ''status'' = JStatus RUNNING
      \<and> (case item_get it ''expiresAt'' of JNum e \<Rightarrow> e < nowMs div 1000 | _ \<Rightarrow> False))"

text \<open>
  In the words of the specification: a record matches the criteria of a filter when its
  user (or, for a filter without user, its guild) is the filter's and its status is the
  filter's, \<^verbatim>\<open>RUNNING\<close> when the filter names none.
\<close>

definition matches_criteria :: "PendingSessionsFilter \<Rightarrow> item \<Rightarrow> bool" where
  "matches_criteria flt it =
     ((if truthy (userId flt) then item_get it ''userId'' = str_value (userId flt)
       else item_get it ''guildId'' = str_value (guildId flt))
      \<and> item_get it ''status''
          = JStatus (case status flt of None \<Rightarrow> RUNNING | Some st \<Rightarrow> st))"

text \<open>A backend with an empty table behind the imported client, and the checkpoint of
  the specification's scenario: session \<^verbatim>\<open>s1\<close> of user \<^verbatim>\<open>u1\<close> in channel \<^verbatim>\<open>c2\<close>, running, at step 2.\<close>

definition empty_backend :: backend where
  "empty_backend =
     \<lparr>table = [], issued = [], outage = None, rejection = ConditionalCheckFailedException\<rparr>"

definition checkpoint :: "SessionStatus \<Rightarrow> PersistedSessionState" where
  "checkpoint st =
     \<lparr>metadata = [(''sessionId'', JStr ''s1''), (''userId'', JStr ''u1''),
                  (''channelId'', JStr ''c2''), (''status'', JStatus st),
                  (''startTime'', JNum 1700000000000),
                  (''lastUpdateTime'', JNum 1700000000000),
                  (''expiresAt'', JNum 1700000000)],
      thetaState = JObj [(''step'', JNum 2)],
      context_value = JObj [],
      error = JUndefined\<rparr>"

text \<open>The item \<^verbatim>\<open>saveState\<close> stores for that checkpoint at time \<open>now\<close> with the given
  time to live: the properties of the metadata, the two payloads, all at the top level.\<close>

definition saved_item :: "SessionStatus \<Rightarrow> int \<Rightarrow> int \<Rightarrow> item" where
  "saved_item st now t =
     [(''sessionId'', JStr ''s1''), (''userId'', JStr ''u1''),
      (''channelId'', JStr ''c2''), (''status'', JStatus st),
      (''startTime'', JNum 1700000000000),
      (''lastUpdateTime'', JNum now),
      (''expiresAt'', JNum (now div 1000 + t)),
      (''thetaState'', JObj [(''step'', JNum 2)]),
      (''context'', JObj [])]"

text \<open>A backend behind the imported client whose table holds the given items and that
  has no failure of its own.\<close>

definition backend_with :: "item list \<Rightarrow> backend" where
  "backend_with t =
     \<lparr>table = t, issued = [], outage = None, rejection = ConditionalCheckFailedException\<rparr>"

text \<open>A string of 2049 bytes: one more than a key may have.\<close>

definition long_key :: string where
  "long_key = replicate 2049 (CHR ''k'')"

text \<open>
  A payload of 400000 bytes, a running record that carries it and expired at second
  100, and a table of four such records: 1.6 MB of data, where one page holds 1 MB.
\<close>

definition payload :: string where
  "payload = replicate 400000 (CHR ''x'')"

definition bulky_record :: "string \<Rightarrow> item" where
  "bulky_record k =
     [(''sessionId'', JStr k), (''status'', JStatus RUNNING), (''expiresAt'', JNum 100),
      (''thetaState'', JStr payload)]"

definition bulky_table :: "item list" where
  "bulky_table = [bulky_record ''a'', bulky_record ''b'', bulky_record ''c'', bulky_record ''d'']"

text \<open>A table for the sweep, at second 200: \<^verbatim>\<open>a\<close> and \<^verbatim>\<open>d\<close> are running and
  expired, \<^verbatim>\<open>b\<close> expires later, \<^verbatim>\<open>c\<close> is expired but completed, \<^verbatim>\<open>e\<close> has no
  expiry.\<close>

definition sweep_table :: "item list" where
  "sweep_table =
     [[(''sessionId'', JStr ''a''), (''status'', JStatus RUNNING), (''expiresAt'', JNum 100)],
      [(''sessionId'', JStr ''b''), (''status'', JStatus RUNNING), (''expiresAt'', JNum 300)],
      [(''sessionId'', JStr ''c''), (''status'', JStatus COMPLETED), (''expiresAt'', JNum 100)],
      [(''sessionId'', JStr ''d''), (''status'', JStatus RUNNING), (''expiresAt'', JNum 150)],
      [(''sessionId'', JStr ''e''), (''status'', JStatus RUNNING)]]"

section \<open>Properties\<close>

subsection \<open>Auxiliary facts\<close>

lemma map_of_js_set: "map_of (js_set k v ps) = (map_of ps)(k \<mapsto> v)"
  by (induction ps) (auto simp: fun_eq_iff)

lemma find_append_absent: "find P xs = None \<Longrightarrow> find P (xs @ ys) = find P ys"
  by (induction xs) (auto split: if_splits)

lemma find_map_in_place:
  "(\<And>x. P x \<Longrightarrow> P (g x)) \<Longrightarrow>
     find P (map (\<lambda>x. if P x then g x else x) t) = map_option g (find P t)"
  by (induction t) auto

lemma find_has_key_filter_out: "find (has_key sid) (filter (\<lambda>x. \<not> has_key sid x) t) = None"
  by (induction t) auto

lemma has_key_key_of: "valid_key sid \<Longrightarrow> has_key sid x \<longleftrightarrow> key_of x = Some sid"
  by (auto simp: has_key_def key_of_def split: option.splits jsval.splits if_splits)

lemma key_of_SomeD:
  "key_of it = Some s \<Longrightarrow> item_get it ''sessionId'' = JStr s \<and> valid_key s"
  by (auto simp: key_of_def item_get_def split: option.splits jsval.splits if_splits)

lemma length_long_key: "length long_key = 2049"
  by (simp only: long_key_def length_replicate)

lemma length_payload: "length payload = 400000"
  by (simp only: payload_def length_replicate)

text \<open>A table within the size of a page is read whole.\<close>

lemma take_page_all: "sum_list (map item_bytes t) \<le> room \<Longrightarrow> take_page room t = t"
  by (induction t arbitrary: room) auto

text \<open>Removing from a table with distinct keys the keys of the items a predicate selects
  removes exactly the selected items.\<close>

lemma filter_out_selected_keys:
  assumes "distinct (map f t)"
  shows "filter (\<lambda>x. f x \<notin> set (map f (filter P t))) t = filter (\<lambda>x. \<not> P x) t"
proof (rule filter_cong [OF refl])
  fix x assume x: "x \<in> set t"
  have inj: "inj_on f (set t)" using assms by (simp add: distinct_map)
  show "(f x \<notin> set (map f (filter P t))) = (\<not> P x)"
  proof
    assume a: "f x \<notin> set (map f (filter P t))"
    show "\<not> P x"
    proof
      assume "P x"
      with x have "f x \<in> set (map f (filter P t))" by auto
      with a show False by simp
    qed
  next
    assume np: "\<not> P x"
    show "f x \<notin> set (map f (filter P t))"
    proof
      assume "f x \<in> set (map f (filter P t))"
      then obtain y where y: "y \<in> set t" "P y" "f y = f x" by auto
      with inj x have "y = x" by (auto dest: inj_onD)
      with y np show False by simp
    qed
  qed
qed

text \<open>The filter expression of the scan selects the expired running records.\<close>

lemma scan_match_expired_running:
  "scan_match RUNNING (nowMs div 1000) = expired_running nowMs"
  by (rule ext)
     (auto simp: scan_match_def expired_running_def item_get_def
           split: option.splits jsval.splits)

text \<open>The loop of the sweep, run over keyed items on a working backend, ends normally
  and leaves the items under the other keys.\<close>

lemma delete_each_keyed:
  "outage b = None \<Longrightarrow> list_all (\<lambda>it. key_of it \<noteq> None) its \<Longrightarrow>
     fst (delete_each its b) = Inr ()
     \<and> outage (snd (delete_each its b)) = None
     \<and> table (snd (delete_each its b))
         = filter (\<lambda>x. key_of x \<notin> set (map key_of its)) (table b)"
proof (induction its arbitrary: b)
  case Nil
  then show ?case by simp
next
  case (Cons it its)
  from Cons.prems obtain s where s: "key_of it = Some s" by auto
  then have g: "item_get it ''sessionId'' = JStr s" and ok: "valid_key s"
    using key_of_SomeD by blast+
  from ok have ne: "s \<noteq> []" by (simp add: valid_key_def)
  define b1 where "b1 = snd (deleteSession s b)"
  have d: "deleteSession s b = (Inr (), b1)"
    using Cons.prems(1) ok by (simp add: b1_def deleteSession_def ddb_delete_def)
  have o1: "outage b1 = None"
    using Cons.prems(1) ok by (simp add: b1_def deleteSession_def ddb_delete_def logged_def)
  have t1: "table b1 = filter (\<lambda>x. key_of x \<noteq> Some s) (table b)"
    using Cons.prems(1) ok
    by (simp add: b1_def deleteSession_def ddb_delete_def logged_def has_key_key_of)
  have rest: "list_all (\<lambda>it. key_of it \<noteq> None) its" using Cons.prems(2) by simp
  have step: "delete_each (it # its) b = delete_each its b1"
    using g ne d by simp
  from Cons.IH [OF o1 rest] show ?case
    unfolding step by (auto simp: t1 s intro: filter_cong)
qed

subsection \<open>What the functions do in general\<close>

text \<open>
  \<^verbatim>\<open>saveState\<close> spreads the metadata into the item, so the item it stores has no
  property \<^verbatim>\<open>metadata\<close>; \<^verbatim>\<open>restoreState\<close> reads \<^verbatim>\<open>state.metadata.startTime\<close> from
  the item it gets. Restoring any stored item without that property throws, and the item
  stays stored.
\<close>

lemma restoreState_without_metadata:
  "outage b = None \<Longrightarrow> valid_key sid \<Longrightarrow> stored b sid = Some it \<Longrightarrow>
   map_of it ''metadata'' = None \<Longrightarrow>
     fst (restoreState now sid b) = Inl TypeError
     \<and> table (snd (restoreState now sid b)) = table b"
  by (simp add: restoreState_def ddb_get_def stored_def item_get_def logged_def)

text \<open>
  On an item that does hold a \<^verbatim>\<open>metadata\<close> object with numeric times, the rest of
  \<^verbatim>\<open>restoreState\<close> is as described: before the expiry the item is returned, resumable
  exactly when the status in the metadata is \<^verbatim>\<open>RUNNING\<close>, with the time elapsed since
  the start; past it the item is deleted and \<^verbatim>\<open>null\<close> returned.
\<close>

lemma restoreState_nested_live:
  assumes "outage b = None" and "valid_key sid" and "stored b sid = Some it"
    and "map_of it ''metadata'' = Some (JObj md)"
    and "item_get md ''startTime'' = JNum start" and "item_get md ''expiresAt'' = JNum e"
    and "\<not> now > e * 1000"
  shows "fst (restoreState now sid b)
           = Inr (Some \<lparr>state = it, resumable = (item_get md ''status'' = JStatus RUNNING),
                        elapsed = Num (now - start)\<rparr>)"
  using assms by (simp add: restoreState_def ddb_get_def stored_def item_get_def)

lemma restoreState_nested_expired:
  assumes "outage b = None" and "valid_key sid" and "stored b sid = Some it"
    and "map_of it ''metadata'' = Some (JObj md)"
    and "item_get md ''startTime'' = JNum start" and "item_get md ''expiresAt'' = JNum e"
    and "now > e * 1000"
  shows "fst (restoreState now sid b) = Inr None
         \<and> stored (snd (restoreState now sid b)) sid = None"
  using assms
  by (simp add: restoreState_def ddb_get_def stored_def item_get_def deleteSession_def
                ddb_delete_def logged_def find_has_key_filter_out)

text \<open>A session id with no stored record restores to \<^verbatim>\<open>null\<close>.\<close>

lemma restoreState_absent:
  "outage b = None \<Longrightarrow> valid_key sid \<Longrightarrow> stored b sid = None \<Longrightarrow>
     fst (restoreState now sid b) = Inr None"
  by (simp add: restoreState_def ddb_get_def stored_def)

text \<open>
  The three outcomes of \<^verbatim>\<open>updateStatusIf\<close>: the write is applied and it returns
  \<^verbatim>\<open>true\<close>; the condition fails, nothing is written, and the handler returns
  \<^verbatim>\<open>false\<close> when the \<^verbatim>\<open>code\<close> of the client's exception is the one it looks for
  and throws the exception again when it is not; the backend fails with some \<open>e\<close>, which
  the handler treats the same way.
\<close>

lemma updateStatusIf_applied:
  "outage b = None \<Longrightarrow> valid_key sid \<Longrightarrow>
   condition_holds (Some (''status'', JStatus expected)) (stored b sid) \<Longrightarrow>
     fst (updateStatusIf now sid new expected b) = Inr True"
  by (auto simp: updateStatusIf_def ddb_update_def stored_def logged_def Let_def
                 condition_holds_def split: option.splits)

lemma updateStatusIf_sets_status:
  assumes "outage b = None" and "valid_key sid" and "stored b sid = Some it"
    and "map_of it ''status'' = Some (JStatus expected)"
  shows "fst (updateStatusIf now sid new expected b) = Inr True
         \<and> stored (snd (updateStatusIf now sid new expected b)) sid
             = Some (js_set ''lastUpdateTime'' (JNum now) (js_set ''status'' (JStatus new) it))
         \<and> item_get (js_set ''lastUpdateTime'' (JNum now) (js_set ''status'' (JStatus new) it))
              ''status'' = JStatus new"
proof -
  let ?sets = "[(''status'', JStatus new), (''lastUpdateTime'', JNum now)]"
  have keep: "\<And>x. has_key sid x \<Longrightarrow> has_key sid (assign ?sets x)"
    by (simp add: has_key_def assign_def map_of_js_set)
  have holds: "condition_holds (Some (''status'', JStatus expected))
                 (find (has_key sid) (table b))"
    using assms(3,4) by (simp add: condition_holds_def stored_def)
  have run: "updateStatusIf now sid new expected b
          = (Inr True, (logged (UpdateCommand sid ?sets (Some (''status'', JStatus expected))) b)
                \<lparr>table := map (\<lambda>x. if has_key sid x then assign ?sets x else x) (table b)\<rparr>)"
    using assms(1,2,3) holds
    by (simp add: updateStatusIf_def ddb_update_def stored_def Let_def)
  have st: "stored (snd (updateStatusIf now sid new expected b)) sid = Some (assign ?sets it)"
    unfolding run stored_def
    using assms(3) find_map_in_place [of "has_key sid" "assign ?sets", OF keep]
    by (simp add: stored_def)
  show ?thesis
    using run st by (simp add: assign_def item_get_def map_of_js_set)
qed

lemma updateStatusIf_rejected:
  "outage b = None \<Longrightarrow> valid_key sid \<Longrightarrow>
   \<not> condition_holds (Some (''status'', JStatus expected)) (stored b sid) \<Longrightarrow>
     fst (updateStatusIf now sid new expected b)
       = (if err_code (rejection b) = Some ''ConditionalCheckFailedException''
          then Inr False else Inl (rejection b))
     \<and> table (snd (updateStatusIf now sid new expected b)) = table b"
  by (simp add: updateStatusIf_def ddb_update_def stored_def logged_def Let_def)

lemma updateStatusIf_outage:
  "outage b = Some e \<Longrightarrow>
     fst (updateStatusIf now sid new expected b)
       = (if err_code e = Some ''ConditionalCheckFailedException'' then Inr False else Inl e)"
  by (simp add: updateStatusIf_def ddb_update_def Let_def)

text \<open>
  Both queries of \<^verbatim>\<open>getPendingSessions\<close> bind \<^verbatim>\<open>:now\<close>, and their only expression,
  the key condition, does not mention it. On a working backend every call with a user or
  a guild is therefore refused: it throws and the table is as before.
\<close>

lemma getPendingSessions_scoped_refused:
  assumes "outage b = None" and "truthy (userId flt) \<or> truthy (guildId flt)"
  shows "fst (getPendingSessions nowMs flt b) = Inl ValidationException
         \<and> table (snd (getPendingSessions nowMs flt b)) = table b"
  using assms
  by (auto simp: getPendingSessions_def ddb_query_def request_valid_def logged_def Let_def
           split: option.splits)

text \<open>With a status in the filter, the channel of the filter plays no part.\<close>

lemma getPendingSessions_status_ignores_channel:
  "status flt = Some st \<Longrightarrow>
     getPendingSessions nowMs (flt\<lparr>channelId := c\<rparr>) b = getPendingSessions nowMs flt b"
  by (simp add: getPendingSessions_def Let_def cong: if_cong)

text \<open>
  On a working backend whose table is keyed and within the size of one page, the sweep
  returns the number of records that are \<^verbatim>\<open>RUNNING\<close> with \<^verbatim>\<open>expiresAt\<close> strictly less
  than the current time in epoch seconds, and the table afterwards is the table before
  without exactly those records.
\<close>

lemma cleanupExpiredSessions_within_one_page:
  assumes "outage b = None" and "well_keyed (table b)"
    and "sum_list (map item_bytes (table b)) \<le> PAGE_BYTES"
  shows "fst (cleanupExpiredSessions nowMs b)
           = Inr (length (filter (expired_running nowMs) (table b)))
         \<and> table (snd (cleanupExpiredSessions nowMs b))
           = filter (\<lambda>it. \<not> expired_running nowMs it) (table b)"
proof -
  let ?exp = "filter (expired_running nowMs) (table b)"
  let ?b1 = "logged (ScanCommand RUNNING (nowMs div 1000)) b"
  have scan: "ddb_scan RUNNING (nowMs div 1000) b = (Inr ?exp, ?b1)"
    using assms(1) take_page_all [OF assms(3)]
    by (simp add: ddb_scan_def scan_match_expired_running)
  have o1: "outage ?b1 = None" and t1: "table ?b1 = table b"
    using assms(1) by (simp_all add: logged_def)
  have keyed: "list_all (\<lambda>it. key_of it \<noteq> None) ?exp"
    using assms(2) by (auto simp: well_keyed_def list_all_iff)
  note loop = delete_each_keyed [OF o1 keyed]
  obtain b2 where run: "delete_each ?exp ?b1 = (Inr (), b2)"
    using loop by (cases "delete_each ?exp ?b1") simp
  have t2: "table b2 = filter (\<lambda>x. key_of x \<notin> set (map key_of ?exp)) (table b)"
    using loop by (simp add: run t1)
  have res: "cleanupExpiredSessions nowMs b = (Inr (length ?exp), b2)"
    by (simp add: cleanupExpiredSessions_def scan run)
  have dist: "distinct (map key_of (table b))"
    using assms(2) by (simp add: well_keyed_def)
  show ?thesis
    using filter_out_selected_keys [OF dist, of "expired_running nowMs"]
    by (simp add: res t2)
qed

text \<open>The sweep at second 200 over the five small records of \<open>sweep_table\<close>: the two
  expired running ones go, and 2 is returned.\<close>

lemma cleanupExpiredSessions_small_table:
  "fst (cleanupExpiredSessions 200500 (backend_with sweep_table)) = Inr 2
   \<and> table (snd (cleanupExpiredSessions 200500 (backend_with sweep_table)))
      = [[(''sessionId'', JStr ''b''), (''status'', JStatus RUNNING), (''expiresAt'', JNum 300)],
         [(''sessionId'', JStr ''c''), (''status'', JStatus COMPLETED),
          (''expiresAt'', JNum 100)],
         [(''sessionId'', JStr ''e''), (''status'', JStatus RUNNING)]]"
  using cleanupExpiredSessions_within_one_page [of "backend_with sweep_table" 200500]
  by (simp add: backend_with_def sweep_table_def well_keyed_def key_of_def valid_key_def
                expired_running_def item_get_def item_bytes_def PAGE_BYTES_def)

subsection \<open>The claims\<close>

text \<open>
  C1. At-most-once finalization, at a session stored as \<^verbatim>\<open>RUNNING\<close>: the first of
  the two conditional writes, \<^verbatim>\<open>updateStatusIf(s1, COMPLETED, RUNNING)\<close>, returns
  \<^verbatim>\<open>true\<close> and the stored status stays \<^verbatim>\<open>COMPLETED\<close>; the second,
  \<^verbatim>\<open>updateStatusIf(s1, FAILED, RUNNING)\<close>, does not return \<^verbatim>\<open>false\<close>: it throws the
  client's exception for the failed condition.
\<close>

theorem updateStatusIf_race_loser_rethrows:
  "fst (updateStatusIf 1700000001000 ''s1'' COMPLETED RUNNING
          (backend_with [saved_item RUNNING 1700000000000 3600])) = Inr True
   \<and> fst (updateStatusIf 1700000002000 ''s1'' FAILED RUNNING
            (snd (updateStatusIf 1700000001000 ''s1'' COMPLETED RUNNING
                    (backend_with [saved_item RUNNING 1700000000000 3600]))))
       = Inl ConditionalCheckFailedException
   \<and> map_option (\<lambda>it. item_get it ''status'')
        (stored (snd (updateStatusIf 1700000002000 ''s1'' FAILED RUNNING
            (snd (updateStatusIf 1700000001000 ''s1'' COMPLETED RUNNING
                    (backend_with [saved_item RUNNING 1700000000000 3600]))))) ''s1'')
       = Some (JStatus COMPLETED)"
  by (simp add: updateStatusIf_def ddb_update_def condition_holds_def assign_def logged_def
                has_key_def item_get_def saved_item_def backend_with_def stored_def
                valid_key_def ConditionalCheckFailedException_def)

text \<open>
  C2. Outcome of the conditional write, at a record stored as \<^verbatim>\<open>COMPLETED\<close> and the
  call \<^verbatim>\<open>updateStatusIf(s1, FAILED, RUNNING)\<close>: the precondition fails, the record is
  left as it was, and the call throws the client's exception instead of returning
  \<^verbatim>\<open>false\<close>.
\<close>

theorem updateStatusIf_precondition_failure_rethrows:
  "fst (updateStatusIf 1700000001000 ''s1'' FAILED RUNNING
          (backend_with [saved_item COMPLETED 1700000000000 3600]))
     = Inl ConditionalCheckFailedException
   \<and> table (snd (updateStatusIf 1700000001000 ''s1'' FAILED RUNNING
          (backend_with [saved_item COMPLETED 1700000000000 3600])))
     = [saved_item COMPLETED 1700000000000 3600]"
  by (simp add: updateStatusIf_def ddb_update_def condition_holds_def logged_def
                has_key_def saved_item_def backend_with_def valid_key_def
                ConditionalCheckFailedException_def)

text \<open>
  C3. Round trip, at the scenario's checkpoint saved with a time to live of 3600 seconds
  and restored half a second later: the stored item is flat, and \<^verbatim>\<open>restoreState\<close>
  throws a TypeError instead of returning the checkpoint.
\<close>

theorem save_then_restore_throws:
  "table (snd (saveState 1700000000000 ''s1'' (checkpoint RUNNING)
                 \<lparr>ttl = Some 3600, includeError = False\<rparr> empty_backend))
     = [saved_item RUNNING 1700000000000 3600]
   \<and> fst (restoreState 1700000000500 ''s1''
           (snd (saveState 1700000000000 ''s1'' (checkpoint RUNNING)
                   \<lparr>ttl = Some 3600, includeError = False\<rparr> empty_backend)))
     = Inl TypeError"
  by (simp add: saveState_def restoreState_def checkpoint_def empty_backend_def ddb_put_def
                ddb_get_def logged_def has_key_def item_get_def saved_item_def valid_key_def
                TypeError_def)

text \<open>
  C4. Expiry on restore, at the scenario's checkpoint saved with a time to live of 0 and
  restored one millisecond later, when its \<^verbatim>\<open>expiresAt\<close> has passed:
  \<^verbatim>\<open>restoreState\<close> throws a TypeError instead of returning \<^verbatim>\<open>null\<close>, and the record
  is still in the table.
\<close>

theorem expired_restore_throws_and_keeps_record:
  "fst (restoreState 1700000000001 ''s1''
           (snd (saveState 1700000000000 ''s1'' (checkpoint RUNNING)
                   \<lparr>ttl = Some 0, includeError = False\<rparr> empty_backend)))
     = Inl TypeError
   \<and> table (snd (restoreState 1700000000001 ''s1''
           (snd (saveState 1700000000000 ''s1'' (checkpoint RUNNING)
                   \<lparr>ttl = Some 0, includeError = False\<rparr> empty_backend))))
     = [saved_item RUNNING 1700000000000 0]"
  by (simp add: saveState_def restoreState_def checkpoint_def empty_backend_def ddb_put_def
                ddb_get_def logged_def has_key_def item_get_def saved_item_def valid_key_def
                TypeError_def)

text \<open>
  C5. Channel post-filter, at a filter naming user \<^verbatim>\<open>u1\<close> and channel \<^verbatim>\<open>c1\<close>, with
  the status \<^verbatim>\<open>RUNNING\<close> and without a status, over a table holding the scenario's
  record: \<^verbatim>\<open>getPendingSessions\<close> returns no sequence, filtered by channel or not. The
  one command it sends is a query that binds \<^verbatim>\<open>:status\<close>, \<^verbatim>\<open>:now\<close> and \<^verbatim>\<open>:userId\<close>
  and whose key condition mentions the first and the last; the backend refuses it and the
  call throws.
\<close>

theorem channel_filtered_listing_is_refused:
  "getPendingSessions 1700000000500
      \<lparr>userId = Some ''u1'', guildId = None, channelId = Some ''c1'', status = Some RUNNING\<rparr>
      (backend_with [saved_item RUNNING 1700000000000 3600])
     = (Inl ValidationException,
        \<lparr>table = [saved_item RUNNING 1700000000000 3600],
         issued = [QueryCommand UserIndex
                     [(''userId'', '':userId''), (''status'', '':status'')]
                     [('':status'', JStatus RUNNING), ('':now'', JNum 1700000000),
                      ('':userId'', JStr ''u1'')]],
         outage = None, rejection = ConditionalCheckFailedException\<rparr>)
   \<and> fst (getPendingSessions 1700000000500
            \<lparr>userId = Some ''u1'', guildId = None, channelId = Some ''c1'', status = None\<rparr>
            (backend_with [saved_item RUNNING 1700000000000 3600]))
     = Inl ValidationException"
  by (simp add: getPendingSessions_def ddb_query_def request_valid_def logged_def
                backend_with_def)

text \<open>
  C6. Query safety: a filter that supplies neither a user nor a guild (each absent or
  the empty string) gets the empty sequence, and the backend is left exactly as it was:
  no command has been sent to it.
\<close>

theorem getPendingSessions_requires_scope:
  "\<not> truthy (userId flt) \<Longrightarrow> \<not> truthy (guildId flt) \<Longrightarrow>
     getPendingSessions nowMs flt b = (Inr [], b)"
  by (simp add: getPendingSessions_def)

text \<open>The same at a filter with an empty guild, a channel and a status, over a table
  that holds a running record.\<close>

theorem getPendingSessions_requires_scope_witness:
  "\<not> truthy (userId \<lparr>userId = None, guildId = Some [], channelId = Some ''c1'',
                       status = Some RUNNING\<rparr>)
   \<and> \<not> truthy (guildId \<lparr>userId = None, guildId = Some [], channelId = Some ''c1'',
                         status = Some RUNNING\<rparr>)
   \<and> getPendingSessions 1700000000000
        \<lparr>userId = None, guildId = Some [], channelId = Some ''c1'', status = Some RUNNING\<rparr>
        \<lparr>table = [[(''sessionId'', JStr ''s1''), (''status'', JStatus RUNNING)]],
         issued = [], outage = None, rejection = ConditionalCheckFailedException\<rparr>
     = (Inr [],
        \<lparr>table = [[(''sessionId'', JStr ''s1''), (''status'', JStatus RUNNING)]],
         issued = [], outage = None, rejection = ConditionalCheckFailedException\<rparr>)"
  using getPendingSessions_requires_scope
    [of "\<lparr>userId = None, guildId = Some [], channelId = Some ''c1'', status = Some RUNNING\<rparr>"
        1700000000000
        "\<lparr>table = [[(''sessionId'', JStr ''s1''), (''status'', JStatus RUNNING)]],
          issued = [], outage = None, rejection = ConditionalCheckFailedException\<rparr>"]
  by simp

text \<open>
  C7. Restore result, at the scenario's record stored and not expired: whether its
  status is \<^verbatim>\<open>RUNNING\<close> or \<^verbatim>\<open>COMPLETED\<close>, \<^verbatim>\<open>restoreState\<close> throws a TypeError
  instead of returning the record with its \<^verbatim>\<open>resumable\<close> flag and elapsed time.
\<close>

theorem restore_of_saved_record_throws:
  "fst (restoreState 1700000000500 ''s1''
          (backend_with [saved_item RUNNING 1700000000000 3600])) = Inl TypeError
   \<and> fst (restoreState 1700000000500 ''s1''
          (backend_with [saved_item COMPLETED 1700000000000 3600])) = Inl TypeError"
  by (simp add: restoreState_def ddb_get_def logged_def has_key_def item_get_def
                saved_item_def backend_with_def valid_key_def TypeError_def)

text \<open>
  C8. Cleanup correctness, at a keyed table of four records that are all \<^verbatim>\<open>RUNNING\<close>
  and expired at second 200, 400000 bytes of payload each: the sweep reads the one page
  its scan is answered with, does not return 4, and leaves expired running records in
  the table.
\<close>

theorem cleanupExpiredSessions_stops_after_one_page:
  "length bulky_table = 4
   \<and> well_keyed bulky_table
   \<and> list_all (expired_running 200500) bulky_table
   \<and> fst (cleanupExpiredSessions 200500 (backend_with bulky_table)) \<noteq> Inr 4
   \<and> filter (expired_running 200500)
        (table (snd (cleanupExpiredSessions 200500 (backend_with bulky_table)))) \<noteq> []"
  by (simp add: cleanupExpiredSessions_def ddb_scan_def scan_match_def logged_def
                deleteSession_def ddb_delete_def has_key_def item_get_def valid_key_def
                bulky_table_def bulky_record_def backend_with_def well_keyed_def key_of_def
                expired_running_def item_bytes_def PAGE_BYTES_def length_payload)

text \<open>
  C9, as stated, fails: for the empty session id, and for one of 2049 bytes, no record
  is stored, yet \<^verbatim>\<open>updateStatus\<close> throws, the backend refusing the key, and no record
  is created.
\<close>

theorem updateStatus_refused_for_invalid_key:
  "stored (backend_with [saved_item RUNNING 1700000000000 3600]) [] = None
   \<and> fst (updateStatus 1700000001000 [] CANCELLED
            (backend_with [saved_item RUNNING 1700000000000 3600])) = Inl ValidationException
   \<and> table (snd (updateStatus 1700000001000 [] CANCELLED
            (backend_with [saved_item RUNNING 1700000000000 3600])))
       = [saved_item RUNNING 1700000000000 3600]
   \<and> stored empty_backend long_key = None
   \<and> fst (updateStatus 1700000001000 long_key CANCELLED empty_backend)
       = Inl ValidationException
   \<and> table (snd (updateStatus 1700000001000 long_key CANCELLED empty_backend)) = []"
  by (simp add: updateStatus_def ddb_update_def logged_def stored_def has_key_def
                saved_item_def backend_with_def empty_backend_def valid_key_def
                length_long_key)

text \<open>
  C9, amended. \<^verbatim>\<open>updateStatus\<close> upserts: on a working backend, for a session id the
  table accepts as a key (a non-empty string of at most 2048 bytes) with no stored
  record the call ends normally and adds to the table a record made of exactly
  \<^verbatim>\<open>sessionId\<close>, the given status and \<^verbatim>\<open>lastUpdateTime\<close>; and after
  \<^verbatim>\<open>deleteSession\<close> of such a session id, \<^verbatim>\<open>updateStatus\<close> of it ends normally and
  the record then stored under it is that partial one, without \<^verbatim>\<open>startTime\<close>,
  \<^verbatim>\<open>thetaState\<close> or \<^verbatim>\<open>expiresAt\<close>.
\<close>

theorem updateStatus_upserts:
  assumes "outage b = None" and "valid_key sid"
  shows "(stored b sid = None \<longrightarrow>
            fst (updateStatus now sid st b) = Inr ()
            \<and> table (snd (updateStatus now sid st b))
                = table b @ [[(''sessionId'', JStr sid), (''status'', JStatus st),
                              (''lastUpdateTime'', JNum now)]])
         \<and> fst (updateStatus now sid st (snd (deleteSession sid b))) = Inr ()
         \<and> stored (snd (updateStatus now sid st (snd (deleteSession sid b)))) sid
             = Some [(''sessionId'', JStr sid), (''status'', JStatus st),
                     (''lastUpdateTime'', JNum now)]"
proof -
  have new: "assign [(''status'', JStatus st), (''lastUpdateTime'', JNum now)]
               [(''sessionId'', JStr sid)]
             = [(''sessionId'', JStr sid), (''status'', JStatus st),
                (''lastUpdateTime'', JNum now)]"
    by (simp add: assign_def)
  have absent: "stored b sid = None \<longrightarrow>
            fst (updateStatus now sid st b) = Inr ()
            \<and> table (snd (updateStatus now sid st b))
                = table b @ [[(''sessionId'', JStr sid), (''status'', JStatus st),
                              (''lastUpdateTime'', JNum now)]]"
    using assms
    by (simp add: stored_def updateStatus_def ddb_update_def condition_holds_def
                  logged_def new Let_def)
  let ?b1 = "snd (deleteSession sid b)"
  have o1: "outage ?b1 = None"
    using assms by (simp add: deleteSession_def ddb_delete_def logged_def)
  have t1: "table ?b1 = filter (\<lambda>x. \<not> has_key sid x) (table b)"
    using assms by (simp add: deleteSession_def ddb_delete_def logged_def)
  have gone: "find (has_key sid) (table ?b1) = None"
    by (simp add: t1 find_has_key_filter_out)
  have upd: "updateStatus now sid st ?b1
             = (Inr (), (logged (UpdateCommand sid [(''status'', JStatus st),
                                   (''lastUpdateTime'', JNum now)] None) ?b1)
                  \<lparr>table := table ?b1 @ [[(''sessionId'', JStr sid), (''status'', JStatus st),
                              (''lastUpdateTime'', JNum now)]]\<rparr>)"
    using o1 gone assms(2)
    by (simp add: updateStatus_def ddb_update_def condition_holds_def new Let_def)
  have found: "stored (snd (updateStatus now sid st ?b1)) sid
             = Some [(''sessionId'', JStr sid), (''status'', JStatus st),
                     (''lastUpdateTime'', JNum now)]"
    unfolding upd stored_def using gone
    by (simp add: find_append_absent has_key_def)
  show ?thesis using absent upd found by simp
qed

text \<open>Over a table holding the scenario's record: \<^verbatim>\<open>updateStatus\<close> of the unknown
  \<^verbatim>\<open>s9\<close> adds a three-property record, and \<^verbatim>\<open>updateStatus\<close> of \<^verbatim>\<open>s1\<close> after its
  deletion brings \<^verbatim>\<open>s1\<close> back as one.\<close>

theorem updateStatus_upserts_witness:
  "outage (backend_with [saved_item RUNNING 1700000000000 3600]) = None
   \<and> valid_key ''s9'' \<and> valid_key ''s1''
   \<and> stored (backend_with [saved_item RUNNING 1700000000000 3600]) ''s9'' = None
   \<and> fst (updateStatus 1700000001000 ''s9'' CANCELLED
            (backend_with [saved_item RUNNING 1700000000000 3600])) = Inr ()
   \<and> table (snd (updateStatus 1700000001000 ''s9'' CANCELLED
            (backend_with [saved_item RUNNING 1700000000000 3600])))
      = [saved_item RUNNING 1700000000000 3600,
         [(''sessionId'', JStr ''s9''), (''status'', JStatus CANCELLED),
          (''lastUpdateTime'', JNum 1700000001000)]]
   \<and> stored (snd (updateStatus 1700000001000 ''s1'' CANCELLED
         (snd (deleteSession ''s1'' (backend_with [saved_item RUNNING 1700000000000 3600])))))
        ''s1''
      = Some [(''sessionId'', JStr ''s1''), (''status'', JStatus CANCELLED),
              (''lastUpdateTime'', JNum 1700000001000)]"
  using updateStatus_upserts [of "backend_with [saved_item RUNNING 1700000000000 3600]"
          "''s9''" 1700000001000 CANCELLED]
        updateStatus_upserts [of "backend_with [saved_item RUNNING 1700000000000 3600]"
          "''s1''" 1700000001000 CANCELLED]
  by (simp add: backend_with_def stored_def has_key_def saved_item_def valid_key_def)

text \<open>
  C10. Listing and expiry, at a filter naming user \<^verbatim>\<open>u1\<close> alone over a table holding
  the scenario's record saved with a time to live of 0 and long expired: the record is
  stored, matches the user and the status \<^verbatim>\<open>RUNNING\<close> of the filter and its
  \<^verbatim>\<open>expiresAt\<close> has passed, yet \<^verbatim>\<open>getPendingSessions\<close> returns no sequence that
  could include it: the backend refuses its query, which binds the unused \<^verbatim>\<open>:now\<close>,
  and the call throws.
\<close>

theorem listing_of_expired_record_is_refused:
  "saved_item RUNNING 1700000000000 0
      \<in> set (table (backend_with [saved_item RUNNING 1700000000000 0]))
   \<and> matches_criteria \<lparr>userId = Some ''u1'', guildId = None, channelId = None, status = None\<rparr>
        (saved_item RUNNING 1700000000000 0)
   \<and> item_get (saved_item RUNNING 1700000000000 0) ''expiresAt'' = JNum 1700000000
   \<and> (1700000000::int) < 1800000000000 div 1000
   \<and> fst (getPendingSessions 1800000000000
            \<lparr>userId = Some ''u1'', guildId = None, channelId = None, status = None\<rparr>
            (backend_with [saved_item RUNNING 1700000000000 0])) = Inl ValidationException"
  by (simp add: getPendingSessions_def ddb_query_def request_valid_def logged_def
                backend_with_def matches_criteria_def item_get_def saved_item_def)

end
